theory Spec2Isabelle
  imports Main "HOL-Library.Word"
begin

section \<open>Data model\<close>

text \<open>
  The application of \<^verbatim>\<open>index.js\<close> keeps two pieces of state: the \<^verbatim>\<open>User\<close> collection
  and, per browser, the object \<^verbatim>\<open>req.session\<close>, of which the handlers only ever read and
  write the property \<^verbatim>\<open>user\<close>.

  A JavaScript string is modelled as a \<^typ>\<open>string\<close>, one \<^typ>\<open>char\<close> per code unit, so that
  \<^verbatim>\<open>s.length\<close> is \<^term>\<open>length s\<close>. A document's \<^verbatim>\<open>_id\<close> is an ObjectId, twelve bytes.
\<close>

type_synonym object_id = "96 word"

text \<open>The object assigned to \<^verbatim>\<open>req.session.user\<close> (lines 89 and 112).\<close>

record snapshot =
  name :: string
  email :: string
  user_type :: string

text \<open>The validated signup input adds the password; a stored document adds its \<^verbatim>\<open>_id\<close>
  (\<^verbatim>\<open>userSchema\<close>, lines 26-31).\<close>

record credentials = snapshot +
  password :: string

record user = credentials +
  uid :: object_id

definition snapshot_of :: "user \<Rightarrow> snapshot" where
  "snapshot_of u = \<lparr>name = name u, email = email u, user_type = user_type u\<rparr>"

text \<open>
  The state one request sees: the collection in natural (insertion) order, and
  \<^verbatim>\<open>req.session.user\<close>, where \<^term>\<open>None\<close> is \<^verbatim>\<open>undefined\<close>.
\<close>

record state =
  users :: "user list"
  session :: "snapshot option"

subsection \<open>Responses\<close>

text \<open>
  \<^verbatim>\<open>res.render(view, locals)\<close> with its status, \<^verbatim>\<open>res.redirect(path)\<close> and
  \<^verbatim>\<open>res.send(html)\<close>. The only markup the handlers send is
  \<^verbatim>\<open><p>MESSAGE</p><a href="LINK">Try again</a>\<close>, kept as \<open>Inline MESSAGE LINK\<close>.
  \<open>Uncaught\<close> is an exception no handler catches: the request gets none of the responses
  above.
\<close>

datatype joi_error =
    AnyRequired string
  | StringBase string
  | StringEmpty string
  | StringMin string nat
  | StringMax string nat
  | StringEmail string
  | AnyOnly string "string list"
  | ObjectUnknown string

datatype message = JoiMessage joi_error | Text string

datatype markup = Inline message string

datatype locals =
    NoLocals
  | UserLocal "snapshot option"
  | CatsLocals "snapshot option" "string list"
  | UsersLocal "user list"

datatype js_error = TypeError | CastError

datatype response =
    Render nat string locals
  | Redirect string
  | Send markup
  | Uncaught js_error

section \<open>Libraries the handlers call\<close>

text \<open>
  Four functions of packages outside this repository decide what the handlers do and are
  parameters of the model: the syntax check behind \<^verbatim>\<open>Joi.string().email()\<close>,
  \<^verbatim>\<open>bcrypt.hash\<close> and \<^verbatim>\<open>bcrypt.compare\<close>, and the cast Mongoose applies to a string that a
  query gives for \<^verbatim>\<open>_id\<close>, which yields the ObjectId the string denotes or fails.
  \<^verbatim>\<open>bcrypt.hash(p, 10)\<close> draws a random salt; the digest is a function of the plaintext, the
  cost and that salt.
\<close>

record libs =
  email_rule :: "string \<Rightarrow> bool"
  bcrypt_hash :: "string \<Rightarrow> nat \<Rightarrow> string \<Rightarrow> string"
  bcrypt_compare :: "string \<Rightarrow> string \<Rightarrow> bool"
  castObjectId :: "string \<Rightarrow> object_id option"

text \<open>What the server draws while it serves one request: the \<^verbatim>\<open>_id\<close> Mongoose gives a
  new document and the salt of \<^verbatim>\<open>bcrypt.hash\<close>.\<close>

record fresh =
  new_id :: object_id
  new_salt :: string

text \<open>An instance of the parameters for evaluating the handlers on concrete requests. It
  stands for no real library: an address is any string with an \<open>@\<close>, a digest is the salt,
  a \<open>$\<close> and the plaintext, and a string denotes an ObjectId when it is 24 hexadecimal
  digits.\<close>

definition hex_digit :: "char \<Rightarrow> nat option" where
  "hex_digit c =
     (let n = (of_char c :: nat)
      in if 48 \<le> n \<and> n \<le> 57 then Some (n - 48)
         else if 97 \<le> n \<and> n \<le> 102 then Some (n - 87)
         else if 65 \<le> n \<and> n \<le> 70 then Some (n - 55)
         else None)"

fun hex_value :: "nat \<Rightarrow> string \<Rightarrow> nat option" where
  "hex_value acc [] = Some acc"
| "hex_value acc (c # cs) =
     (case hex_digit c of None \<Rightarrow> None | Some d \<Rightarrow> hex_value (16 * acc + d) cs)"

definition hex24 :: "string \<Rightarrow> object_id option" where
  "hex24 s = (if length s = 24 then map_option of_nat (hex_value 0 s) else None)"

definition sample_libs :: libs where
  "sample_libs =
     \<lparr>email_rule = (\<lambda>s. CHR ''@'' \<in> set s),
      bcrypt_hash = (\<lambda>p cost salt. salt @ ''$'' @ p),
      bcrypt_compare = (\<lambda>p d. dropWhile (\<lambda>c. c \<noteq> CHR ''$'') d = ''$'' @ p),
      castObjectId = hex24\<rparr>"

section \<open>Input validation\<close>

text \<open>
  \<^verbatim>\<open>express.urlencoded({ extended: true })\<close> makes \<^verbatim>\<open>req.body\<close> an object whose values are
  strings, arrays or nested objects. The object is kept as an association list;
  \<^term>\<open>map_of\<close> reads a property.
\<close>

datatype form_value =
    Str string
  | Arr "form_value list"
  | Obj "(string \<times> form_value) list"

type_synonym form = "(string \<times> form_value) list"

text \<open>
  The rules the two schemas chain on \<^verbatim>\<open>Joi.string()\<close>: \<^verbatim>\<open>.min(n)\<close>, \<^verbatim>\<open>.max(n)\<close> and
  \<^verbatim>\<open>.email()\<close>. Joi runs them in the order written and stops at the first failure
  (\<^verbatim>\<open>abortEarly\<close>).
\<close>

datatype rule = MinLen nat | MaxLen nat | EmailSyntax

fun check_rules :: "libs \<Rightarrow> string \<Rightarrow> rule list \<Rightarrow> string \<Rightarrow> joi_error option" where
  "check_rules L k [] s = None"
| "check_rules L k (MinLen n # rs) s =
     (if n \<le> length s then check_rules L k rs s else Some (StringMin k n))"
| "check_rules L k (MaxLen n # rs) s =
     (if length s \<le> n then check_rules L k rs s else Some (StringMax k n))"
| "check_rules L k (EmailSyntax # rs) s =
     (if email_rule L s then check_rules L k rs s else Some (StringEmail k))"

text \<open>
  \<^verbatim>\<open>Joi.string()\<close>: the value must be a string, and Joi's string type refuses the empty
  string unless \<^verbatim>\<open>.allow('')\<close> is given (neither schema gives it).
\<close>

definition joi_string :: "libs \<Rightarrow> rule list \<Rightarrow> string \<Rightarrow> form_value \<Rightarrow> joi_error + string" where
  "joi_string L rs k v =
     (case v of
        Str s \<Rightarrow>
          if s = [] then Inl (StringEmpty k)
          else (case check_rules L k rs s of Some e \<Rightarrow> Inl e | None \<Rightarrow> Inr s)
      | _ \<Rightarrow> Inl (StringBase k))"

text \<open>\<^verbatim>\<open>.required()\<close>: an absent property is an error.\<close>

definition joi_required ::
  "(string \<Rightarrow> form_value \<Rightarrow> joi_error + string) \<Rightarrow> string \<Rightarrow> form_value option \<Rightarrow> joi_error + string"
where
  "joi_required chk k v = (case v of None \<Rightarrow> Inl (AnyRequired k) | Some x \<Rightarrow> chk k x)"

text \<open>\<^verbatim>\<open>Joi.string().valid(...).default(d)\<close>: an absent property becomes \<open>d\<close>; a present one
  must be one of the listed strings.\<close>

definition joi_valid_default ::
  "string list \<Rightarrow> string \<Rightarrow> string \<Rightarrow> form_value option \<Rightarrow> joi_error + string"
where
  "joi_valid_default vs d k v =
     (case v of
        None \<Rightarrow> Inr d
      | Some (Str s) \<Rightarrow> if s \<in> set vs then Inr s else Inl (AnyOnly k vs)
      | Some _ \<Rightarrow> Inl (AnyOnly k vs))"

text \<open>\<^verbatim>\<open>Joi.object({...})\<close> refuses a property the schema does not name; Joi looks at the
  unknown properties after the named ones.\<close>

definition unknown_key :: "string list \<Rightarrow> form \<Rightarrow> string option" where
  "unknown_key ks b = map_option fst (find (\<lambda>(k, v). k \<notin> set ks) b)"

text \<open>The schema of POST /signup (lines 71-78), property by property in its order.\<close>

definition validate_signup :: "libs \<Rightarrow> form \<Rightarrow> joi_error + credentials" where
  "validate_signup L b =
     (case joi_required (joi_string L [MaxLen 30]) ''name'' (map_of b ''name'') of
        Inl e \<Rightarrow> Inl e
      | Inr n \<Rightarrow>
     (case joi_required (joi_string L [EmailSyntax]) ''email'' (map_of b ''email'') of
        Inl e \<Rightarrow> Inl e
      | Inr em \<Rightarrow>
     (case joi_required (joi_string L [MinLen 5, MaxLen 30]) ''password'' (map_of b ''password'') of
        Inl e \<Rightarrow> Inl e
      | Inr pw \<Rightarrow>
     (case joi_valid_default [''user'', ''admin''] ''user'' ''user_type'' (map_of b ''user_type'') of
        Inl e \<Rightarrow> Inl e
      | Inr ut \<Rightarrow>
     (case unknown_key [''name'', ''email'', ''password'', ''user_type''] b of
        Some k \<Rightarrow> Inl (ObjectUnknown k)
      | None \<Rightarrow> Inr \<lparr>name = n, email = em, user_type = ut, password = pw\<rparr>)))))"

text \<open>The schema of POST /login (lines 98-103); the result is the pair of
  \<^verbatim>\<open>req.body.email\<close> and \<^verbatim>\<open>req.body.password\<close>, which the handler reads next.\<close>

definition validate_login :: "libs \<Rightarrow> form \<Rightarrow> joi_error + string \<times> string" where
  "validate_login L b =
     (case joi_required (joi_string L [EmailSyntax]) ''email'' (map_of b ''email'') of
        Inl e \<Rightarrow> Inl e
      | Inr em \<Rightarrow>
     (case joi_required (joi_string L [MinLen 5, MaxLen 30]) ''password'' (map_of b ''password'') of
        Inl e \<Rightarrow> Inl e
      | Inr pw \<Rightarrow>
     (case unknown_key [''email'', ''password''] b of
        Some k \<Rightarrow> Inl (ObjectUnknown k)
      | None \<Rightarrow> Inr (em, pw))))"

section \<open>Access control gates\<close>

text \<open>A middleware either calls \<^verbatim>\<open>next()\<close> or ends the request with a response.\<close>

datatype gate = Next | Respond response

text \<open>Lines 51-54. An object is truthy, \<^verbatim>\<open>undefined\<close> is not.\<close>

definition isAuthenticated :: "snapshot option \<Rightarrow> gate" where
  "isAuthenticated s = (if s \<noteq> None then Next else Respond (Redirect ''/login''))"

text \<open>Lines 56-59. \<^verbatim>\<open>user?.user_type\<close> is \<^verbatim>\<open>undefined\<close> when there is no user.\<close>

definition isAdmin :: "snapshot option \<Rightarrow> gate" where
  "isAdmin s =
     (if map_option user_type s = Some ''admin'' then Next
      else Respond (Render 403 ''403'' NoLocals))"

section \<open>Routes\<close>

text \<open>Lines 62-64.\<close>

definition get_root :: "state \<Rightarrow> response \<times> state" where
  "get_root st = (Render 200 ''index'' (UserLocal (session st)), st)"

text \<open>Lines 66-68 and 93-95.\<close>

definition get_signup :: "state \<Rightarrow> response \<times> state" where
  "get_signup st = (Render 200 ''signup'' NoLocals, st)"

definition get_login :: "state \<Rightarrow> response \<times> state" where
  "get_login st = (Render 200 ''login'' NoLocals, st)"

text \<open>Lines 70-91. \<^verbatim>\<open>User.create\<close> appends the document; no query precedes it.\<close>

definition post_signup :: "libs \<Rightarrow> fresh \<Rightarrow> state \<Rightarrow> form \<Rightarrow> response \<times> state" where
  "post_signup L fr st body =
     (case validate_signup L body of
        Inl e \<Rightarrow> (Send (Inline (JoiMessage e) ''/signup''), st)
      | Inr v \<Rightarrow>
          (let hashedPassword = bcrypt_hash L (password v) 10 (new_salt fr);
               newUser = \<lparr>name = name v, email = email v, user_type = user_type v,
                          password = hashedPassword, uid = new_id fr\<rparr>
           in (Redirect ''/members'',
               \<lparr>users = users st @ [newUser], session = Some (snapshot_of newUser)\<rparr>)))"

text \<open>Lines 97-114. \<^verbatim>\<open>User.findOne\<close> gives the first document with that address.\<close>

definition post_login :: "libs \<Rightarrow> state \<Rightarrow> form \<Rightarrow> response \<times> state" where
  "post_login L st body =
     (case validate_login L body of
        Inl e \<Rightarrow> (Send (Inline (JoiMessage e) ''/login''), st)
      | Inr (em, pw) \<Rightarrow>
          (case find (\<lambda>u. email u = em) (users st) of
             None \<Rightarrow> (Send (Inline (Text ''User not found'') ''/login''), st)
           | Some u \<Rightarrow>
               if \<not> bcrypt_compare L pw (password u)
               then (Send (Inline (Text ''Invalid password'') ''/login''), st)
               else (Redirect ''/members'', st\<lparr>session := Some (snapshot_of u)\<rparr>)))"

text \<open>Lines 116-119.\<close>

definition get_members :: "state \<Rightarrow> response \<times> state" where
  "get_members st =
     (case isAuthenticated (session st) of
        Respond r \<Rightarrow> (r, st)
      | Next \<Rightarrow>
          (Render 200 ''cats''
             (CatsLocals (session st) [''cat1.jpg'', ''cat2.jpg'', ''cat3.jpg'']), st))"

text \<open>Lines 122-129. Reading \<^verbatim>\<open>user_type\<close> of \<^verbatim>\<open>undefined\<close> throws; the gate in front
  makes that branch unreachable.\<close>

definition admin_handler :: "state \<Rightarrow> response \<times> state" where
  "admin_handler st =
     (case session st of
        None \<Rightarrow> (Uncaught TypeError, st)
      | Some u \<Rightarrow>
          if user_type u \<noteq> ''admin'' then (Render 200 ''index'' (UserLocal (session st)), st)
          else (Render 200 ''admin'' (UsersLocal (users st)), st))"

definition get_admin :: "state \<Rightarrow> response \<times> state" where
  "get_admin st =
     (case isAuthenticated (session st) of
        Respond r \<Rightarrow> (r, st)
      | Next \<Rightarrow> admin_handler st)"

text \<open>\<^verbatim>\<open>User.updateOne({ _id: id }, { $set: { user_type: r } })\<close>: the first document
  with that \<^verbatim>\<open>_id\<close> gets the new role; without a match nothing is written.\<close>

fun updateOne_user_type :: "object_id \<Rightarrow> string \<Rightarrow> user list \<Rightarrow> user list" where
  "updateOne_user_type i r [] = []"
| "updateOne_user_type i r (u # us) =
     (if uid u = i then u\<lparr>user_type := r\<rparr> # us else u # updateOne_user_type i r us)"

text \<open>
  The call as the two routes make it, with \<^verbatim>\<open>req.params.id\<close>, any path segment, for
  \<^verbatim>\<open>_id\<close>: Mongoose casts the string to the ObjectId of the schema before it queries, and
  the call rejects with a \<^verbatim>\<open>CastError\<close> when the string denotes none.
\<close>

definition updateOne_by_param ::
  "libs \<Rightarrow> string \<Rightarrow> string \<Rightarrow> user list \<Rightarrow> js_error + user list"
where
  "updateOne_by_param L p r us =
     (case castObjectId L p of
        None \<Rightarrow> Inl CastError
      | Some i \<Rightarrow> Inr (updateOne_user_type i r us))"

text \<open>Lines 131-137 and 139-145. Neither handler catches what \<^verbatim>\<open>await\<close> throws, so a
  rejected update ends the request before \<^verbatim>\<open>res.redirect\<close>.\<close>

definition get_promote :: "libs \<Rightarrow> state \<Rightarrow> string \<Rightarrow> response \<times> state" where
  "get_promote L st p =
     (case isAuthenticated (session st) of
        Respond r \<Rightarrow> (r, st)
      | Next \<Rightarrow>
          (case isAdmin (session st) of
             Respond r \<Rightarrow> (r, st)
           | Next \<Rightarrow>
               (case updateOne_by_param L p ''admin'' (users st) of
                  Inl e \<Rightarrow> (Uncaught e, st)
                | Inr us \<Rightarrow> (Redirect ''/admin'', st\<lparr>users := us\<rparr>))))"

definition get_demote :: "libs \<Rightarrow> state \<Rightarrow> string \<Rightarrow> response \<times> state" where
  "get_demote L st p =
     (case isAuthenticated (session st) of
        Respond r \<Rightarrow> (r, st)
      | Next \<Rightarrow>
          (case isAdmin (session st) of
             Respond r \<Rightarrow> (r, st)
           | Next \<Rightarrow>
               (case updateOne_by_param L p ''user'' (users st) of
                  Inl e \<Rightarrow> (Uncaught e, st)
                | Inr us \<Rightarrow> (Redirect ''/admin'', st\<lparr>users := us\<rparr>))))"

text \<open>Lines 147-151: the session is destroyed, so the next request of this browser finds
  no user. Lines 153-155 answer every other request.\<close>

definition get_logout :: "state \<Rightarrow> response \<times> state" where
  "get_logout st = (Redirect ''/'', st\<lparr>session := None\<rparr>)"

definition not_found :: "state \<Rightarrow> response \<times> state" where
  "not_found st = (Render 404 ''404'' NoLocals, st)"

subsection \<open>The routing table and runs of requests\<close>

datatype request =
    GetRoot
  | GetSignup
  | PostSignup form
  | GetLogin
  | PostLogin form
  | GetMembers
  | GetAdmin
  | GetPromote string
  | GetDemote string
  | GetLogout
  | Unmatched

definition route :: "libs \<Rightarrow> fresh \<Rightarrow> state \<Rightarrow> request \<Rightarrow> response \<times> state" where
  "route L fr st rq =
     (case rq of
        GetRoot \<Rightarrow> get_root st
      | GetSignup \<Rightarrow> get_signup st
      | PostSignup body \<Rightarrow> post_signup L fr st body
      | GetLogin \<Rightarrow> get_login st
      | PostLogin body \<Rightarrow> post_login L st body
      | GetMembers \<Rightarrow> get_members st
      | GetAdmin \<Rightarrow> get_admin st
      | GetPromote p \<Rightarrow> get_promote L st p
      | GetDemote p \<Rightarrow> get_demote L st p
      | GetLogout \<Rightarrow> get_logout st
      | Unmatched \<Rightarrow> not_found st)"

text \<open>
  What happens to the state one browser sees: \<open>Here\<close> is a request of that browser,
  \<open>Elsewhere s\<close> a request served for another session, whose user is \<open>s\<close>. The
  collection is shared; a session belongs to one browser, so a request served elsewhere
  reaches this state through the collection only.
\<close>

datatype event = Here fresh request | Elsewhere "snapshot option" fresh request

fun run :: "libs \<Rightarrow> state \<Rightarrow> event list \<Rightarrow> state" where
  "run L st [] = st"
| "run L st (Here fr rq # evs) = run L (snd (route L fr st rq)) evs"
| "run L st (Elsewhere s fr rq # evs) =
     run L (st\<lparr>users := users (snd (route L fr \<lparr>users = users st, session = s\<rparr> rq))\<rparr>) evs"

text \<open>The requests that write \<^verbatim>\<open>req.session\<close>: signup, login and logout.\<close>

fun keeps_login :: "event \<Rightarrow> bool" where
  "keeps_login (Here fr (PostSignup b)) = False"
| "keeps_login (Here fr (PostLogin b)) = False"
| "keeps_login (Here fr GetLogout) = False"
| "keeps_login ev = True"

section \<open>The signup contract in words\<close>

text \<open>
  The inputs POST /signup accepts as the specification words them: \<open>name\<close> present with
  at most 30 characters, \<open>email\<close> present with valid syntax, \<open>password\<close> present with 5 to
  30 characters, \<open>user_type\<close> absent, \<open>user\<close> or \<open>admin\<close>. It is compared with the schema
  below.
\<close>

definition spec_signup_accepts :: "libs \<Rightarrow> form \<Rightarrow> bool" where
  "spec_signup_accepts L b \<longleftrightarrow>
     (case map_of b ''name'' of Some (Str n) \<Rightarrow> length n \<le> 30 | _ \<Rightarrow> False) \<and>
     (case map_of b ''email'' of Some (Str e) \<Rightarrow> email_rule L e | _ \<Rightarrow> False) \<and>
     (case map_of b ''password'' of Some (Str p) \<Rightarrow> 5 \<le> length p \<and> length p \<le> 30 | _ \<Rightarrow> False) \<and>
     (case map_of b ''user_type'' of
        None \<Rightarrow> True
      | Some (Str r) \<Rightarrow> r = ''user'' \<or> r = ''admin''
      | Some _ \<Rightarrow> False)"

text \<open>
  The same with the two conditions the schema adds: \<open>name\<close> and \<open>email\<close> are not empty,
  and the body has no property besides the four.
\<close>

definition signup_accepts :: "libs \<Rightarrow> form \<Rightarrow> bool" where
  "signup_accepts L b \<longleftrightarrow>
     (case map_of b ''name'' of Some (Str n) \<Rightarrow> n \<noteq> [] \<and> length n \<le> 30 | _ \<Rightarrow> False) \<and>
     (case map_of b ''email'' of Some (Str e) \<Rightarrow> e \<noteq> [] \<and> email_rule L e | _ \<Rightarrow> False) \<and>
     (case map_of b ''password'' of Some (Str p) \<Rightarrow> 5 \<le> length p \<and> length p \<le> 30 | _ \<Rightarrow> False) \<and>
     (case map_of b ''user_type'' of
        None \<Rightarrow> True
      | Some (Str r) \<Rightarrow> r = ''user'' \<or> r = ''admin''
      | Some _ \<Rightarrow> False) \<and>
     list_all (\<lambda>(k, v). k \<in> {''name'', ''email'', ''password'', ''user_type''}) b"

text \<open>The role a form asks for: the property \<open>user_type\<close>, or \<open>user\<close> when it is absent.\<close>

definition requested_role :: "form \<Rightarrow> string" where
  "requested_role b = (case map_of b ''user_type'' of Some (Str r) \<Rightarrow> r | _ \<Rightarrow> ''user'')"

section \<open>Session manager\<close>

text \<open>
  Modelled from the spec: the session store of section 4.3. The store behind
  \<^verbatim>\<open>req.session\<close> is express-session over connect-mongo, packages that are not among the
  sources; \<^verbatim>\<open>index.js\<close> configures them (lines 38-48) and calls \<^verbatim>\<open>destroy\<close> (line 148).
  A stored session is the snapshot with its absolute expiry; time is in milliseconds.
\<close>

type_synonym token = string

record stored_session =
  snap :: snapshot
  expiry :: nat

type_synonym session_store = "token \<Rightarrow> stored_session option"

text \<open>Line 47: \<^verbatim>\<open>cookie: { maxAge: 1000 * 60 * 60 }\<close>.\<close>

definition maxAge :: nat where
  "maxAge = 1000 * 60 * 60"

text \<open>Modelled from the spec: \<open>create_session\<close> stores the snapshot keyed by the token with
  expiry now + TTL and returns the token. The random token is an argument.\<close>

definition create_session ::
  "session_store \<Rightarrow> token \<Rightarrow> snapshot \<Rightarrow> nat \<Rightarrow> token \<times> session_store"
where
  "create_session S t s now = (t, S(t \<mapsto> \<lparr>snap = s, expiry = now + maxAge\<rparr>))"

text \<open>Modelled from the spec: \<open>load_session\<close> returns none if the token is absent, unknown
  or expired.\<close>

definition load_session :: "session_store \<Rightarrow> token option \<Rightarrow> nat \<Rightarrow> snapshot option" where
  "load_session S c now =
     (case c of
        None \<Rightarrow> None
      | Some t \<Rightarrow>
          (case S t of
             None \<Rightarrow> None
           | Some r \<Rightarrow> if now < expiry r then Some (snap r) else None))"

text \<open>Modelled from the spec: \<open>destroy_session\<close> removes the session record regardless of
  prior existence.\<close>

definition destroy_session :: "session_store \<Rightarrow> token \<Rightarrow> session_store" where
  "destroy_session S t = S(t := None)"

section \<open>What a role update may touch\<close>

text \<open>
  Two collections differ by the role of documents with \<^verbatim>\<open>_id\<close> \<open>i\<close> at most: same ids,
  names, addresses and passwords position by position, and every document whose id is not
  \<open>i\<close> is the same document.
\<close>

definition role_only :: "object_id \<Rightarrow> user list \<Rightarrow> user list \<Rightarrow> bool" where
  "role_only i us us' \<longleftrightarrow>
     map uid us' = map uid us \<and> map name us' = map name us
     \<and> map email us' = map email us \<and> map password us' = map password us
     \<and> list_all2 (\<lambda>u u'. u' = u \<or> uid u = i) us us'"

section \<open>Sample data\<close>

text \<open>Two stored documents, the forms that belong to the second, the path segments that
  denote their ids, and the values the server drew when the second was created. They serve
  the concrete runs further down.\<close>

definition root_doc :: user where
  "root_doc = \<lparr>name = ''Root'', email = ''root@x.com'', user_type = ''admin'',
                password = ''s9$hunter2'', uid = 1\<rparr>"

definition alice_doc :: user where
  "alice_doc = \<lparr>name = ''A'', email = ''a@x.com'', user_type = ''user'',
                 password = ''s0$secret'', uid = 2\<rparr>"

definition alice_form :: form where
  "alice_form = [(''name'', Str ''A''), (''email'', Str ''a@x.com''), (''password'', Str ''secret'')]"

definition alice_login :: form where
  "alice_login = [(''email'', Str ''a@x.com''), (''password'', Str ''secret'')]"

definition root_param :: string where
  "root_param = ''000000000000000000000001''"

definition alice_param :: string where
  "alice_param = ''000000000000000000000002''"

definition fresh0 :: fresh where
  "fresh0 = \<lparr>new_id = 2, new_salt = ''s0''\<rparr>"

section \<open>Auxiliary facts\<close>

subsection \<open>Lists\<close>

lemma find_append_first:
  "find P (xs @ ys) = (case find P xs of None \<Rightarrow> find P ys | Some x \<Rightarrow> Some x)"
  by (induction xs) auto

lemma find_Some_in_set: "find P xs = Some x \<Longrightarrow> x \<in> set xs"
  by (induction xs) (auto split: if_splits)

lemma find_email_None: "em \<notin> email ` set us \<Longrightarrow> find (\<lambda>u. email u = em) us = None"
  by (auto simp: find_None_iff)

subsection \<open>What the schemas accept\<close>

lemma sum_case_Inr:
  "(case x of Inl e \<Rightarrow> Inl e | Inr a \<Rightarrow> f a) = Inr v \<longleftrightarrow> (\<exists>a. x = Inr a \<and> f a = Inr v)"
  by (cases x) auto

lemma unknown_key_None: "unknown_key ks b = None \<longleftrightarrow> list_all (\<lambda>(k, v). k \<in> set ks) b"
  by (auto simp: unknown_key_def find_None_iff list_all_iff)

lemma unknown_case_Inr:
  "(case unknown_key ks b of Some k \<Rightarrow> Inl (ObjectUnknown k) | None \<Rightarrow> Inr x) = Inr v
     \<longleftrightarrow> list_all (\<lambda>(k, v). k \<in> set ks) b \<and> x = v"
  by (cases "unknown_key ks b") (auto simp: unknown_key_None[symmetric])

lemma check_rules_None:
  "check_rules L k [] s = None \<longleftrightarrow> True"
  "check_rules L k (MinLen n # rs) s = None \<longleftrightarrow> n \<le> length s \<and> check_rules L k rs s = None"
  "check_rules L k (MaxLen n # rs) s = None \<longleftrightarrow> length s \<le> n \<and> check_rules L k rs s = None"
  "check_rules L k (EmailSyntax # rs) s = None \<longleftrightarrow> email_rule L s \<and> check_rules L k rs s = None"
  by simp_all

lemma joi_string_Inr:
  "joi_string L rs k v = Inr s \<longleftrightarrow> v = Str s \<and> s \<noteq> [] \<and> check_rules L k rs s = None"
  by (auto simp: joi_string_def split: form_value.splits option.splits)

lemma joi_required_Inr:
  "joi_required (joi_string L rs) k v = Inr s
     \<longleftrightarrow> v = Some (Str s) \<and> s \<noteq> [] \<and> check_rules L k rs s = None"
  by (auto simp: joi_required_def joi_string_Inr split: option.splits)

lemma joi_valid_default_Inr:
  "joi_valid_default vs d k v = Inr s
     \<longleftrightarrow> (v = None \<and> s = d) \<or> (v = Some (Str s) \<and> s \<in> set vs)"
  by (auto simp: joi_valid_default_def split: option.splits form_value.splits)

lemma validate_signup_Inr:
  "validate_signup L b = Inr v \<longleftrightarrow>
     (\<exists>n e p r.
        map_of b ''name'' = Some (Str n) \<and> n \<noteq> [] \<and> length n \<le> 30
        \<and> map_of b ''email'' = Some (Str e) \<and> e \<noteq> [] \<and> email_rule L e
        \<and> map_of b ''password'' = Some (Str p) \<and> 5 \<le> length p \<and> length p \<le> 30
        \<and> (map_of b ''user_type'' = None \<and> r = ''user''
            \<or> map_of b ''user_type'' = Some (Str r) \<and> (r = ''user'' \<or> r = ''admin''))
        \<and> list_all (\<lambda>(k, v). k \<in> {''name'', ''email'', ''password'', ''user_type''}) b
        \<and> v = \<lparr>name = n, email = e, user_type = r, password = p\<rparr>)"
  unfolding validate_signup_def sum_case_Inr joi_required_Inr joi_valid_default_Inr
    unknown_case_Inr check_rules_None
  by auto

lemma validate_login_Inr:
  "validate_login L b = Inr (e, p) \<longleftrightarrow>
     map_of b ''email'' = Some (Str e) \<and> e \<noteq> [] \<and> email_rule L e
     \<and> map_of b ''password'' = Some (Str p) \<and> 5 \<le> length p \<and> length p \<le> 30
     \<and> list_all (\<lambda>(k, v). k \<in> {''email'', ''password''}) b"
  unfolding validate_login_def sum_case_Inr joi_required_Inr unknown_case_Inr check_rules_None
  by auto

lemma validate_login_pair:
  "validate_login L [(''email'', Str e), (''password'', Str p)] = Inr (e, p)
     \<longleftrightarrow> e \<noteq> [] \<and> email_rule L e \<and> 5 \<le> length p \<and> length p \<le> 30"
  by (auto simp: validate_login_Inr)

lemma validate_signup_accepts: "(\<exists>v. validate_signup L b = Inr v) \<longleftrightarrow> signup_accepts L b"
  unfolding validate_signup_Inr signup_accepts_def
  by (auto split: option.splits form_value.splits)

subsection \<open>Signup and login\<close>

lemma post_signup_redirect:
  "fst (post_signup L fr st b) = Redirect ''/members'' \<longleftrightarrow> signup_accepts L b"
  unfolding validate_signup_accepts[symmetric]
  by (auto simp: post_signup_def Let_def split: sum.splits)

lemma post_signup_accepted:
  assumes "signup_accepts L b"
  shows "\<exists>n e p.
          map_of b ''name'' = Some (Str n) \<and> map_of b ''email'' = Some (Str e)
          \<and> map_of b ''password'' = Some (Str p)
          \<and> post_signup L fr st b =
              (Redirect ''/members'',
               \<lparr>users = users st @
                  [\<lparr>name = n, email = e, user_type = requested_role b,
                    password = bcrypt_hash L p 10 (new_salt fr), uid = new_id fr\<rparr>],
                session = Some \<lparr>name = n, email = e, user_type = requested_role b\<rparr>\<rparr>)"
proof -
  from assms obtain v where v: "validate_signup L b = Inr v"
    using validate_signup_accepts by blast
  then obtain n e p r where
    f: "map_of b ''name'' = Some (Str n)" "map_of b ''email'' = Some (Str e)"
       "map_of b ''password'' = Some (Str p)"
       "map_of b ''user_type'' = None \<and> r = ''user'' \<or> map_of b ''user_type'' = Some (Str r)"
       "v = \<lparr>name = n, email = e, user_type = r, password = p\<rparr>"
    unfolding validate_signup_Inr by blast
  have r: "requested_role b = r"
    using f(4) by (auto simp: requested_role_def)
  have "post_signup L fr st b =
      (Redirect ''/members'',
       \<lparr>users = users st @
          [\<lparr>name = n, email = e, user_type = requested_role b,
            password = bcrypt_hash L p 10 (new_salt fr), uid = new_id fr\<rparr>],
        session = Some \<lparr>name = n, email = e, user_type = requested_role b\<rparr>\<rparr>)"
    by (simp add: post_signup_def v f(5) r snapshot_of_def)
  with f(1-3) show ?thesis by simp
qed

lemma post_signup_rejected:
  assumes "\<not> signup_accepts L b"
  shows "\<exists>err. post_signup L fr st b = (Send (Inline (JoiMessage err) ''/signup''), st)"
proof -
  from assms have "\<nexists>v. validate_signup L b = Inr v"
    using validate_signup_accepts by blast
  then obtain err where "validate_signup L b = Inl err"
    by (cases "validate_signup L b") auto
  then show ?thesis by (simp add: post_signup_def)
qed

lemma post_login_session:
  assumes "post_login L st0 b = (Redirect ''/members'', st)"
  shows "\<exists>u \<in> set (users st). session st = Some (snapshot_of u)"
proof -
  from assms obtain e p u where
    "find (\<lambda>u. email u = e) (users st0) = Some u" "st = st0\<lparr>session := Some (snapshot_of u)\<rparr>"
    by (auto simp: post_login_def split: sum.splits option.splits if_splits)
  then have "u \<in> set (users st)" "session st = Some (snapshot_of u)"
    by (simp_all add: find_Some_in_set)
  then show ?thesis by blast
qed

lemma post_signup_session:
  assumes "post_signup L fr st0 b = (Redirect ''/members'', st)"
  shows "\<exists>u \<in> set (users st). session st = Some (snapshot_of u)"
proof -
  from assms obtain u where "st = \<lparr>users = users st0 @ [u], session = Some (snapshot_of u)\<rparr>"
    by (auto simp: post_signup_def Let_def split: sum.splits)
  then have "u \<in> set (users st)" "session st = Some (snapshot_of u)"
    by simp_all
  then show ?thesis by blast
qed

subsection \<open>Role updates\<close>

lemma updateOne_find:
  "find (\<lambda>u. uid u = i) (updateOne_user_type i r us)
     = map_option (\<lambda>u. u\<lparr>user_type := r\<rparr>) (find (\<lambda>u. uid u = i) us)"
  by (induction us) auto

lemma updateOne_no_match: "i \<notin> uid ` set us \<Longrightarrow> updateOne_user_type i r us = us"
  by (induction us) auto

lemma role_only_refl: "role_only i us us"
  by (simp add: role_only_def list.rel_refl)

lemma updateOne_role_only: "role_only i us (updateOne_user_type i r us)"
proof (induction us)
  case Nil
  then show ?case by (simp add: role_only_def)
next
  case (Cons u us)
  show ?case
  proof (cases "uid u = i")
    case True
    then show ?thesis by (simp add: role_only_def list.rel_refl)
  next
    case False
    with Cons.IH show ?thesis by (simp add: role_only_def)
  qed
qed

subsection \<open>Requests that leave the session alone\<close>

lemma route_keeps_session:
  "keeps_login (Here fr rq) \<Longrightarrow> session (snd (route L fr st rq)) = session st"
  by (cases rq)
    (auto simp: route_def get_root_def get_signup_def get_login_def get_members_def get_admin_def
      admin_handler_def get_promote_def get_demote_def not_found_def
      split: gate.splits option.splits sum.splits)

lemma run_keeps_session:
  "list_all keeps_login evs \<Longrightarrow> session (run L st evs) = session st"
proof (induction evs arbitrary: st)
  case Nil
  then show ?case by simp
next
  case (Cons ev evs)
  then have rest: "list_all keeps_login evs" and ev: "keeps_login ev" by simp_all
  show ?case
  proof (cases ev)
    case (Here fr rq)
    with ev have "session (snd (route L fr st rq)) = session st"
      by (simp add: route_keeps_session)
    with Cons.IH[OF rest] Here show ?thesis by simp
  next
    case (Elsewhere s fr rq)
    with Cons.IH[OF rest] show ?thesis by simp
  qed
qed

section \<open>The gates\<close>

text \<open>
  C1. On a request with no session user, \<open>isAdmin\<close> answers 403 and \<open>isAuthenticated\<close>
  answers with a redirect to the login page. The two gates are independent: whatever the
  session, \<open>isAdmin\<close> either passes or answers 403 (never the redirect), and
  \<open>isAuthenticated\<close> either passes or redirects (never 403); and a session whose role is
  \<open>user\<close> passes \<open>isAuthenticated\<close> while \<open>isAdmin\<close> answers 403, so passing the one does
  not mean passing the other.
\<close>

theorem gates_without_session:
  "isAdmin None = Respond (Render 403 ''403'' NoLocals)
   \<and> isAuthenticated None = Respond (Redirect ''/login'')
   \<and> isAdmin None \<noteq> isAuthenticated None
   \<and> isAdmin s \<in> {Next, Respond (Render 403 ''403'' NoLocals)}
   \<and> isAuthenticated s \<in> {Next, Respond (Redirect ''/login'')}
   \<and> isAuthenticated (Some \<lparr>name = n, email = e, user_type = ''user''\<rparr>) = Next
   \<and> isAdmin (Some \<lparr>name = n, email = e, user_type = ''user''\<rparr>)
       = Respond (Render 403 ''403'' NoLocals)"
proof -
  have admin: "isAdmin None = Respond (Render 403 ''403'' NoLocals)"
    by (simp add: isAdmin_def)
  have auth: "isAuthenticated None = Respond (Redirect ''/login'')"
    by (simp add: isAuthenticated_def)
  have "isAdmin s \<in> {Next, Respond (Render 403 ''403'' NoLocals)}"
    by (simp add: isAdmin_def)
  moreover have "isAuthenticated s \<in> {Next, Respond (Redirect ''/login'')}"
    by (simp add: isAuthenticated_def)
  moreover have "isAuthenticated (Some \<lparr>name = n, email = e, user_type = ''user''\<rparr>) = Next"
    by (simp add: isAuthenticated_def)
  moreover have "isAdmin (Some \<lparr>name = n, email = e, user_type = ''user''\<rparr>)
      = Respond (Render 403 ''403'' NoLocals)"
    by (simp add: isAdmin_def)
  ultimately show ?thesis using admin auth by simp
qed

section \<open>Authorization reads the session snapshot\<close>

text \<open>
  C2. Let a login or a signup succeed and leave the state \<open>st\<close>; the session then holds the
  snapshot of a document \<open>u\<close> of the collection as it is at that moment. After any run of
  events in which this browser neither signs up, logs in nor logs out (requests served for
  other sessions may promote and demote at will), the session still holds that snapshot,
  and \<open>isAdmin\<close>, the role check of GET /admin and the gates of /promote and /demote all
  decide by the role \<open>u\<close> had at login, whatever the collection says by then: with a role
  other than \<open>admin\<close> the two mutation routes answer 403, with \<open>admin\<close> they go on to the
  update.
\<close>

theorem snapshot_role_authorizes:
  assumes "rq = PostLogin b \<or> rq = PostSignup b"
    and "route L fr st0 rq = (Redirect ''/members'', st)"
    and "list_all keeps_login evs"
  shows "\<exists>u \<in> set (users st).
           session (run L st evs) = Some (snapshot_of u)
           \<and> isAdmin (session (run L st evs))
               = (if user_type u = ''admin'' then Next else Respond (Render 403 ''403'' NoLocals))
           \<and> fst (get_admin (run L st evs))
               = (if user_type u \<noteq> ''admin''
                  then Render 200 ''index'' (UserLocal (Some (snapshot_of u)))
                  else Render 200 ''admin'' (UsersLocal (users (run L st evs))))
           \<and> fst (get_promote L (run L st evs) p)
               = (if user_type u = ''admin''
                  then (case castObjectId L p of
                          None \<Rightarrow> Uncaught CastError | Some i \<Rightarrow> Redirect ''/admin'')
                  else Render 403 ''403'' NoLocals)
           \<and> fst (get_demote L (run L st evs) p)
               = (if user_type u = ''admin''
                  then (case castObjectId L p of
                          None \<Rightarrow> Uncaught CastError | Some i \<Rightarrow> Redirect ''/admin'')
                  else Render 403 ''403'' NoLocals)"
proof -
  have "\<exists>u \<in> set (users st). session st = Some (snapshot_of u)"
    using assms(1,2) post_login_session[of L st0 b st] post_signup_session[of L fr st0 b st]
    by (auto simp: route_def)
  then obtain u where u: "u \<in> set (users st)" "session st = Some (snapshot_of u)"
    by blast
  have s: "session (run L st evs) = Some (snapshot_of u)"
    using run_keeps_session[OF assms(3)] u(2) by simp
  have "isAdmin (session (run L st evs))
               = (if user_type u = ''admin'' then Next else Respond (Render 403 ''403'' NoLocals))"
    by (simp add: s isAdmin_def snapshot_of_def)
  moreover have "fst (get_admin (run L st evs))
               = (if user_type u \<noteq> ''admin''
                  then Render 200 ''index'' (UserLocal (Some (snapshot_of u)))
                  else Render 200 ''admin'' (UsersLocal (users (run L st evs))))"
    by (simp add: s get_admin_def admin_handler_def isAuthenticated_def snapshot_of_def)
  moreover have "fst (get_promote L (run L st evs) p)
               = (if user_type u = ''admin''
                  then (case castObjectId L p of
                          None \<Rightarrow> Uncaught CastError | Some i \<Rightarrow> Redirect ''/admin'')
                  else Render 403 ''403'' NoLocals)"
    by (simp add: s get_promote_def updateOne_by_param_def isAdmin_def isAuthenticated_def
        snapshot_of_def split: option.splits)
  moreover have "fst (get_demote L (run L st evs) p)
               = (if user_type u = ''admin''
                  then (case castObjectId L p of
                          None \<Rightarrow> Uncaught CastError | Some i \<Rightarrow> Redirect ''/admin'')
                  else Render 403 ''403'' NoLocals)"
    by (simp add: s get_demote_def updateOne_by_param_def isAdmin_def isAuthenticated_def
        snapshot_of_def split: option.splits)
  ultimately show ?thesis using u(1) s by blast
qed

text \<open>
  A run of it: the second user logs in with role \<open>user\<close>; an administrator, in another
  session, promotes that user; the user's next GET /admin still renders the landing page,
  although both stored roles are \<open>admin\<close> by then.
\<close>

theorem snapshot_role_authorizes_witness:
  "route sample_libs fresh0 \<lparr>users = [root_doc, alice_doc], session = None\<rparr> (PostLogin alice_login)
     = (Redirect ''/members'', \<lparr>users = [root_doc, alice_doc], session = Some (snapshot_of alice_doc)\<rparr>)
   \<and> list_all keeps_login
        [Elsewhere (Some (snapshot_of root_doc)) fresh0 (GetPromote alice_param), Here fresh0 GetAdmin]
   \<and> map user_type (users (run sample_libs
        \<lparr>users = [root_doc, alice_doc], session = Some (snapshot_of alice_doc)\<rparr>
        [Elsewhere (Some (snapshot_of root_doc)) fresh0 (GetPromote alice_param), Here fresh0 GetAdmin]))
      = [''admin'', ''admin'']
   \<and> fst (get_admin (run sample_libs
        \<lparr>users = [root_doc, alice_doc], session = Some (snapshot_of alice_doc)\<rparr>
        [Elsewhere (Some (snapshot_of root_doc)) fresh0 (GetPromote alice_param), Here fresh0 GetAdmin]))
      = Render 200 ''index'' (UserLocal (Some \<lparr>name = ''A'', email = ''a@x.com'', user_type = ''user''\<rparr>))"
  using snapshot_role_authorizes
    [of "PostLogin alice_login" alice_login sample_libs fresh0
        "\<lparr>users = [root_doc, alice_doc], session = None\<rparr>"
        "\<lparr>users = [root_doc, alice_doc], session = Some (snapshot_of alice_doc)\<rparr>"
        "[Elsewhere (Some (snapshot_of root_doc)) fresh0 (GetPromote alice_param), Here fresh0 GetAdmin]"
        alice_param]
  by (simp add: root_doc_def alice_doc_def alice_login_def alice_param_def fresh0_def
      sample_libs_def hex24_def hex_digit_def route_def post_login_def validate_login_def
      joi_required_def joi_string_def unknown_key_def snapshot_of_def get_admin_def
      admin_handler_def get_promote_def updateOne_by_param_def isAuthenticated_def isAdmin_def)

section \<open>Signup, then login\<close>

text \<open>
  C3, as stated, fails: \<^verbatim>\<open>User.create\<close> never looks for an earlier document with the same
  address, and \<^verbatim>\<open>User.findOne\<close> returns the first one. Here the address of the new account
  is already taken by the second sample document; the signup is accepted, and the login with
  the new account's own address and password is answered "Invalid password".
\<close>

theorem login_after_signup_counterexample:
  "fst (post_signup sample_libs \<lparr>new_id = 3, new_salt = ''s1''\<rparr>
         \<lparr>users = [root_doc, alice_doc], session = None\<rparr>
         [(''name'', Str ''B''), (''email'', Str ''a@x.com''), (''password'', Str ''second''),
          (''user_type'', Str ''admin'')]) = Redirect ''/members''
   \<and> fst (post_login sample_libs
         (snd (post_signup sample_libs \<lparr>new_id = 3, new_salt = ''s1''\<rparr>
           \<lparr>users = [root_doc, alice_doc], session = None\<rparr>
           [(''name'', Str ''B''), (''email'', Str ''a@x.com''), (''password'', Str ''second''),
            (''user_type'', Str ''admin'')]))
         [(''email'', Str ''a@x.com''), (''password'', Str ''second'')])
       = Send (Inline (Text ''Invalid password'') ''/login'')"
  by (simp add: root_doc_def alice_doc_def sample_libs_def post_login_def post_signup_def
      validate_login_def validate_signup_def joi_required_def joi_string_def
      joi_valid_default_def unknown_key_def snapshot_of_def)

text \<open>
  C3, amended. Let POST /signup accept a form whose address no stored document has yet,
  and let \<^verbatim>\<open>bcrypt.compare\<close> accept the password against the digest \<^verbatim>\<open>bcrypt.hash\<close> made of it
  at signup. Then, on the collection as the signup left it (later signups may have
  appended to it), POST /login with that address and password redirects to /members and
  sets the session to the snapshot of the document the signup created, whose role is the
  role the form asked for.
\<close>

theorem login_after_signup:
  assumes ok: "fst (post_signup L fr st body) = Redirect ''/members''"
    and em: "map_of body ''email'' = Some (Str em)"
    and pw: "map_of body ''password'' = Some (Str pw)"
    and new: "em \<notin> email ` set (users st)"
    and hash: "bcrypt_compare L pw (bcrypt_hash L pw 10 (new_salt fr))"
    and later: "users st' = users (snd (post_signup L fr st body)) @ later"
  shows "\<exists>u. last (users (snd (post_signup L fr st body))) = u
           \<and> uid u = new_id fr \<and> email u = em \<and> user_type u = requested_role body
           \<and> post_login L st' [(''email'', Str em), (''password'', Str pw)]
               = (Redirect ''/members'', st'\<lparr>session := Some (snapshot_of u)\<rparr>)"
proof -
  from ok have acc: "signup_accepts L body"
    by (simp add: post_signup_redirect)
  with post_signup_accepted[of L body fr st] em pw obtain n where
    su: "post_signup L fr st body =
      (Redirect ''/members'',
       \<lparr>users = users st @
          [\<lparr>name = n, email = em, user_type = requested_role body,
            password = bcrypt_hash L pw 10 (new_salt fr), uid = new_id fr\<rparr>],
        session = Some \<lparr>name = n, email = em, user_type = requested_role body\<rparr>\<rparr>)"
    by auto
  define u where "u = \<lparr>name = n, email = em, user_type = requested_role body,
            password = bcrypt_hash L pw 10 (new_salt fr), uid = new_id fr\<rparr>"
  from acc em pw have rules: "em \<noteq> []" "email_rule L em" "5 \<le> length pw" "length pw \<le> 30"
    by (auto simp: signup_accepts_def)
  then have vl: "validate_login L [(''email'', Str em), (''password'', Str pw)] = Inr (em, pw)"
    by (simp add: validate_login_pair)
  have us: "users st' = (users st @ [u]) @ later"
    using later su by (simp add: u_def)
  have fnd: "find (\<lambda>x. email x = em) (users st') = Some u"
    unfolding us by (simp add: find_append_first find_email_None[OF new] u_def)
  have "post_login L st' [(''email'', Str em), (''password'', Str pw)]
          = (Redirect ''/members'', st'\<lparr>session := Some (snapshot_of u)\<rparr>)"
    using hash by (simp add: post_login_def vl fnd u_def)
  moreover have "last (users (snd (post_signup L fr st body))) = u"
    by (simp add: su u_def)
  ultimately show ?thesis by (simp add: u_def)
qed

theorem login_after_signup_witness:
  "fst (post_signup sample_libs fresh0 \<lparr>users = [root_doc], session = None\<rparr> alice_form)
     = Redirect ''/members''
   \<and> ''a@x.com'' \<notin> email ` set [root_doc]
   \<and> post_login sample_libs \<lparr>users = [root_doc, alice_doc], session = None\<rparr> alice_login
     = (Redirect ''/members'',
        \<lparr>users = [root_doc, alice_doc],
         session = Some \<lparr>name = ''A'', email = ''a@x.com'', user_type = ''user''\<rparr>\<rparr>)"
  using login_after_signup
    [of sample_libs fresh0 "\<lparr>users = [root_doc], session = None\<rparr>" alice_form
        "''a@x.com''" "''secret''" "\<lparr>users = [root_doc, alice_doc], session = None\<rparr>" "[]"]
  by (simp add: root_doc_def alice_doc_def alice_form_def alice_login_def fresh0_def
      sample_libs_def post_login_def post_signup_def validate_login_def validate_signup_def joi_required_def joi_string_def
      joi_valid_default_def unknown_key_def
      snapshot_of_def)

section \<open>GET /admin\<close>

text \<open>
  C4. With a session user attached, GET /admin renders the landing page (view
  \<open>index\<close>, status 200) when the snapshot's role is not \<open>admin\<close>, and otherwise renders
  the \<open>admin\<close> view with every document of the collection; the state is left as it was.
\<close>

theorem get_admin_with_session:
  assumes "session st = Some u"
  shows "get_admin st =
    (if user_type u \<noteq> ''admin'' then (Render 200 ''index'' (UserLocal (Some u)), st)
     else (Render 200 ''admin'' (UsersLocal (users st)), st))"
  using assms by (simp add: get_admin_def admin_handler_def isAuthenticated_def)

theorem get_admin_with_session_witness:
  "get_admin \<lparr>users = [], session = Some \<lparr>name = ''A'', email = ''a@x.com'', user_type = ''user''\<rparr>\<rparr>
   = (Render 200 ''index'' (UserLocal (Some \<lparr>name = ''A'', email = ''a@x.com'', user_type = ''user''\<rparr>)),
      \<lparr>users = [], session = Some \<lparr>name = ''A'', email = ''a@x.com'', user_type = ''user''\<rparr>\<rparr>)"
  using get_admin_with_session
    [of "\<lparr>users = [], session = Some \<lparr>name = ''A'', email = ''a@x.com'', user_type = ''user''\<rparr>\<rparr>"
        "\<lparr>name = ''A'', email = ''a@x.com'', user_type = ''user''\<rparr>"]
  by simp

section \<open>POST /signup validates its input\<close>

text \<open>
  C5, as stated, fails twice. A form whose \<open>name\<close> is the empty string has a name of at
  most 30 characters, and a form with a fifth property meets all four conditions; the schema
  refuses both, the first because \<^verbatim>\<open>Joi.string()\<close> does not allow the empty string, the second
  because \<^verbatim>\<open>Joi.object\<close> does not allow a property it does not name.
\<close>

theorem signup_validation_counterexample:
  "spec_signup_accepts sample_libs
     [(''name'', Str []), (''email'', Str ''a@x.com''), (''password'', Str ''secret'')]
   \<and> post_signup sample_libs fresh0 \<lparr>users = [], session = None\<rparr>
       [(''name'', Str []), (''email'', Str ''a@x.com''), (''password'', Str ''secret'')]
     = (Send (Inline (JoiMessage (StringEmpty ''name'')) ''/signup''), \<lparr>users = [], session = None\<rparr>)
   \<and> spec_signup_accepts sample_libs
     [(''name'', Str ''A''), (''email'', Str ''a@x.com''), (''password'', Str ''secret''),
      (''remember'', Str ''on'')]
   \<and> post_signup sample_libs fresh0 \<lparr>users = [], session = None\<rparr>
       [(''name'', Str ''A''), (''email'', Str ''a@x.com''), (''password'', Str ''secret''),
        (''remember'', Str ''on'')]
     = (Send (Inline (JoiMessage (ObjectUnknown ''remember'')) ''/signup''),
        \<lparr>users = [], session = None\<rparr>)"
  by (simp add: fresh0_def sample_libs_def spec_signup_accepts_def post_signup_def
      validate_signup_def joi_required_def joi_string_def joi_valid_default_def unknown_key_def)

text \<open>
  C5, amended. POST /signup accepts exactly the forms that have no property besides
  \<open>name\<close>, \<open>email\<close>, \<open>password\<close> and \<open>user_type\<close>, in which \<open>name\<close> is a string of 1 to 30
  characters, \<open>email\<close> a non-empty string of valid syntax, \<open>password\<close> a string of 5 to 30
  characters and \<open>user_type\<close> is absent, \<open>user\<close> or \<open>admin\<close>. An accepted form is answered
  with a redirect to /members; the document appended to the collection and the session
  snapshot carry the form's name and address and the requested role, which is \<open>user\<close>
  when \<open>user_type\<close> is absent. Any other form is answered with a validation message and a
  retry link to /signup, and the state is left as it was.
\<close>

theorem signup_validation:
  "if signup_accepts L b
   then \<exists>n e p.
          map_of b ''name'' = Some (Str n) \<and> map_of b ''email'' = Some (Str e)
          \<and> map_of b ''password'' = Some (Str p)
          \<and> post_signup L fr st b =
              (Redirect ''/members'',
               \<lparr>users = users st @
                  [\<lparr>name = n, email = e, user_type = requested_role b,
                    password = bcrypt_hash L p 10 (new_salt fr), uid = new_id fr\<rparr>],
                session = Some \<lparr>name = n, email = e, user_type = requested_role b\<rparr>\<rparr>)
   else \<exists>err. post_signup L fr st b = (Send (Inline (JoiMessage err) ''/signup''), st)"
  using post_signup_accepted[of L b fr st] post_signup_rejected[of L b fr st]
  by (cases "signup_accepts L b") simp_all

text \<open>The scenario of the specification: the role is omitted, the stored role is \<open>user\<close>
  and GET /admin on the new session renders the landing page. Then a form without an
  address.\<close>

theorem signup_validation_witness:
  "signup_accepts sample_libs alice_form
   \<and> requested_role alice_form = ''user''
   \<and> post_signup sample_libs fresh0 \<lparr>users = [], session = None\<rparr> alice_form
     = (Redirect ''/members'',
        \<lparr>users = [alice_doc], session = Some \<lparr>name = ''A'', email = ''a@x.com'', user_type = ''user''\<rparr>\<rparr>)
   \<and> fst (get_admin (snd (post_signup sample_libs fresh0 \<lparr>users = [], session = None\<rparr> alice_form)))
     = Render 200 ''index'' (UserLocal (Some \<lparr>name = ''A'', email = ''a@x.com'', user_type = ''user''\<rparr>))
   \<and> \<not> signup_accepts sample_libs [(''name'', Str ''A'')]
   \<and> post_signup sample_libs fresh0 \<lparr>users = [], session = None\<rparr> [(''name'', Str ''A'')]
     = (Send (Inline (JoiMessage (AnyRequired ''email'')) ''/signup''), \<lparr>users = [], session = None\<rparr>)"
  using signup_validation[of sample_libs alice_form fresh0 "\<lparr>users = [], session = None\<rparr>"]
    signup_validation[of sample_libs "[(''name'', Str ''A'')]" fresh0 "\<lparr>users = [], session = None\<rparr>"]
  by (simp add: alice_doc_def alice_form_def fresh0_def sample_libs_def signup_accepts_def
      requested_role_def post_signup_def validate_signup_def joi_required_def joi_string_def
      joi_valid_default_def unknown_key_def snapshot_of_def get_admin_def admin_handler_def
      isAuthenticated_def)

section \<open>Promote and demote\<close>

text \<open>
  C6, as stated, fails: the routes hand any path segment to \<^verbatim>\<open>updateOne\<close>, and nothing
  catches the error of a segment that denotes no ObjectId. On GET /promote/7 by an
  administrator the update rejects with a \<^verbatim>\<open>CastError\<close>: the request is not redirected
  to /admin and the error is not swallowed. The collection and the session are untouched.
\<close>

theorem promote_demote_by_admin_counterexample:
  "user_type (snapshot_of root_doc) = ''admin''
   \<and> castObjectId sample_libs ''7'' = None
   \<and> get_promote sample_libs
        \<lparr>users = [root_doc, alice_doc], session = Some (snapshot_of root_doc)\<rparr> ''7''
       = (Uncaught CastError, \<lparr>users = [root_doc, alice_doc], session = Some (snapshot_of root_doc)\<rparr>)
   \<and> get_demote sample_libs
        \<lparr>users = [root_doc, alice_doc], session = Some (snapshot_of root_doc)\<rparr> ''7''
       = (Uncaught CastError, \<lparr>users = [root_doc, alice_doc], session = Some (snapshot_of root_doc)\<rparr>)
   \<and> Uncaught CastError \<noteq> Redirect ''/admin''"
  by (simp add: root_doc_def alice_doc_def sample_libs_def hex24_def snapshot_of_def
      get_promote_def get_demote_def updateOne_by_param_def isAuthenticated_def isAdmin_def)

text \<open>
  C6, amended. For every path segment that denotes an ObjectId \<open>i\<close>, when the session
  user is an administrator, GET /promote/:id and GET /demote/:id redirect to /admin; the
  document with id \<open>i\<close>, if there is one, is afterwards the same document with role
  \<open>admin\<close> (for demote: \<open>user\<close>), whatever its role was; and when no document has that id
  the request is still redirected to /admin, the state is exactly what it was and no error
  is raised.
\<close>

theorem promote_demote_by_admin:
  assumes "session st = Some a" and "user_type a = ''admin''"
    and "castObjectId L p = Some i"
  shows "get_promote L st p
           = (Redirect ''/admin'', st\<lparr>users := updateOne_user_type i ''admin'' (users st)\<rparr>)
    \<and> get_demote L st p
           = (Redirect ''/admin'', st\<lparr>users := updateOne_user_type i ''user'' (users st)\<rparr>)
    \<and> find (\<lambda>u. uid u = i) (users (snd (get_promote L st p)))
        = map_option (\<lambda>u. u\<lparr>user_type := ''admin''\<rparr>) (find (\<lambda>u. uid u = i) (users st))
    \<and> find (\<lambda>u. uid u = i) (users (snd (get_demote L st p)))
        = map_option (\<lambda>u. u\<lparr>user_type := ''user''\<rparr>) (find (\<lambda>u. uid u = i) (users st))
    \<and> (i \<notin> uid ` set (users st) \<longrightarrow>
          get_promote L st p = (Redirect ''/admin'', st)
          \<and> get_demote L st p = (Redirect ''/admin'', st))"
proof -
  have gates: "isAuthenticated (session st) = Next" "isAdmin (session st) = Next"
    using assms(1,2) by (simp_all add: isAuthenticated_def isAdmin_def)
  have pro: "get_promote L st p
           = (Redirect ''/admin'', st\<lparr>users := updateOne_user_type i ''admin'' (users st)\<rparr>)"
    by (simp add: get_promote_def gates updateOne_by_param_def assms(3))
  have dem: "get_demote L st p
           = (Redirect ''/admin'', st\<lparr>users := updateOne_user_type i ''user'' (users st)\<rparr>)"
    by (simp add: get_demote_def gates updateOne_by_param_def assms(3))
  show ?thesis
    by (simp add: pro dem updateOne_find updateOne_no_match)
qed

text \<open>An administrator promotes the second sample document, then asks for a well-formed
  id that no document has.\<close>

theorem promote_demote_by_admin_witness:
  "castObjectId sample_libs alice_param = Some 2
   \<and> get_promote sample_libs
        \<lparr>users = [root_doc, alice_doc], session = Some (snapshot_of root_doc)\<rparr> alice_param
     = (Redirect ''/admin'',
        \<lparr>users = [root_doc, alice_doc\<lparr>user_type := ''admin''\<rparr>],
         session = Some (snapshot_of root_doc)\<rparr>)
   \<and> castObjectId sample_libs ''000000000000000000000007'' = Some 7
   \<and> 7 \<notin> uid ` set [root_doc, alice_doc]
   \<and> get_promote sample_libs
        \<lparr>users = [root_doc, alice_doc], session = Some (snapshot_of root_doc)\<rparr>
        ''000000000000000000000007''
     = (Redirect ''/admin'', \<lparr>users = [root_doc, alice_doc], session = Some (snapshot_of root_doc)\<rparr>)
   \<and> get_demote sample_libs
        \<lparr>users = [root_doc, alice_doc], session = Some (snapshot_of root_doc)\<rparr>
        ''000000000000000000000007''
     = (Redirect ''/admin'', \<lparr>users = [root_doc, alice_doc], session = Some (snapshot_of root_doc)\<rparr>)"
  using promote_demote_by_admin
    [of "\<lparr>users = [root_doc, alice_doc], session = Some (snapshot_of root_doc)\<rparr>"
        "snapshot_of root_doc" sample_libs alice_param 2]
    promote_demote_by_admin
    [of "\<lparr>users = [root_doc, alice_doc], session = Some (snapshot_of root_doc)\<rparr>"
        "snapshot_of root_doc" sample_libs "''000000000000000000000007''" 7]
  by (simp add: root_doc_def alice_doc_def alice_param_def sample_libs_def hex24_def
      hex_digit_def snapshot_of_def)

text \<open>
  C10. Whatever the session and the path segment, GET /promote/:id and GET /demote/:id
  leave the session as it was. When the segment denotes the ObjectId \<open>i\<close>, the collection
  afterwards differs from the one before by the role of documents with that id at most:
  ids, names, addresses and passwords are what they were, position by position, and every
  document with another id is unchanged. When the segment denotes no ObjectId the whole
  state is what it was.
\<close>

theorem role_mutation_frame:
  "session (snd (get_promote L st p)) = session st
   \<and> session (snd (get_demote L st p)) = session st
   \<and> (case castObjectId L p of
         Some i \<Rightarrow>
           role_only i (users st) (users (snd (get_promote L st p)))
           \<and> role_only i (users st) (users (snd (get_demote L st p)))
       | None \<Rightarrow> snd (get_promote L st p) = st \<and> snd (get_demote L st p) = st)"
proof (cases "castObjectId L p")
  case None
  then have "snd (get_promote L st p) = st" and "snd (get_demote L st p) = st"
    by (simp_all add: get_promote_def get_demote_def updateOne_by_param_def split: gate.splits)
  with None show ?thesis by simp
next
  case (Some i)
  then have p: "snd (get_promote L st p) = st
      \<or> snd (get_promote L st p) = st\<lparr>users := updateOne_user_type i ''admin'' (users st)\<rparr>"
    by (simp add: get_promote_def updateOne_by_param_def split: gate.splits)
  from Some have d: "snd (get_demote L st p) = st
      \<or> snd (get_demote L st p) = st\<lparr>users := updateOne_user_type i ''user'' (users st)\<rparr>"
    by (simp add: get_demote_def updateOne_by_param_def split: gate.splits)
  from p have "session (snd (get_promote L st p)) = session st"
    and "role_only i (users st) (users (snd (get_promote L st p)))"
    by (auto simp: role_only_refl updateOne_role_only)
  moreover from d have "session (snd (get_demote L st p)) = session st"
    and "role_only i (users st) (users (snd (get_demote L st p)))"
    by (auto simp: role_only_refl updateOne_role_only)
  ultimately show ?thesis using Some by simp
qed

section \<open>Login with an unknown address\<close>

text \<open>
  C7, as stated, fails: the schema is checked before the collection is read. With an
  address no document has and a password of three characters the answer is the validation
  message about the password, not "User not found".
\<close>

theorem login_unknown_email_counterexample:
  "''ghost@x.com'' \<notin> email ` set [root_doc, alice_doc]
   \<and> post_login sample_libs \<lparr>users = [root_doc, alice_doc], session = None\<rparr>
       [(''email'', Str ''ghost@x.com''), (''password'', Str ''abc'')]
     = (Send (Inline (JoiMessage (StringMin ''password'' 5)) ''/login''),
        \<lparr>users = [root_doc, alice_doc], session = None\<rparr>)
   \<and> JoiMessage (StringMin ''password'' 5) \<noteq> Text ''User not found''"
  by (simp add: root_doc_def alice_doc_def sample_libs_def post_login_def validate_login_def
      joi_required_def joi_string_def unknown_key_def)

text \<open>
  C7, amended. For every POST /login whose body passes the login schema and whose address
  no stored document has, the answer is the message "User not found" with a retry link to
  /login, and the state, the session in particular, is left as it was.
\<close>

theorem login_unknown_email:
  assumes "validate_login L body = Inr (em, pw)" and "em \<notin> email ` set (users st)"
  shows "post_login L st body = (Send (Inline (Text ''User not found'') ''/login''), st)"
  using assms by (simp add: post_login_def find_email_None)

theorem login_unknown_email_witness:
  "validate_login sample_libs [(''email'', Str ''ghost@x.com''), (''password'', Str ''secret'')]
     = Inr (''ghost@x.com'', ''secret'')
   \<and> ''ghost@x.com'' \<notin> email ` set [root_doc, alice_doc]
   \<and> post_login sample_libs \<lparr>users = [root_doc, alice_doc], session = None\<rparr>
       [(''email'', Str ''ghost@x.com''), (''password'', Str ''secret'')]
     = (Send (Inline (Text ''User not found'') ''/login''),
        \<lparr>users = [root_doc, alice_doc], session = None\<rparr>)"
  using login_unknown_email
    [of sample_libs "[(''email'', Str ''ghost@x.com''), (''password'', Str ''secret'')]"
        "''ghost@x.com''" "''secret''" "\<lparr>users = [root_doc, alice_doc], session = None\<rparr>"]
  by (simp add: root_doc_def alice_doc_def sample_libs_def post_login_def validate_login_def
      joi_required_def joi_string_def unknown_key_def)

section \<open>Sessions end\<close>

text \<open>
  C8. In the session manager as the specification describes it: after \<open>destroy_session\<close>
  of a token, \<open>load_session\<close> of that token is none at any time; a session created at
  \<open>now\<close> is loaded \<open>d\<close> milliseconds later exactly when \<open>d\<close> is less than the configured
  \<open>maxAge\<close>, which is one hour, so from \<open>now + maxAge\<close> on it is none without any destroy;
  \<open>destroy_session\<close> leaves no record under the token whether or not there was one, and a
  second destroy changes nothing. GET /logout, which calls destroy, redirects to the root
  and leaves no session user.
\<close>

theorem session_lifecycle:
  "load_session (destroy_session S t) (Some t) now = None
   \<and> load_session (snd (create_session S t s now)) (Some t) (now + d)
       = (if d < maxAge then Some s else None)
   \<and> load_session (snd (create_session S t s now)) (Some t) (now + maxAge + d) = None
   \<and> maxAge = 60 * 60 * 1000
   \<and> destroy_session S t t = None
   \<and> destroy_session (destroy_session S t) t = destroy_session S t
   \<and> get_logout st = (Redirect ''/'', st\<lparr>session := None\<rparr>)"
proof -
  have gone: "destroy_session S t t = None"
    by (simp add: destroy_session_def)
  then have "load_session (destroy_session S t) (Some t) now = None"
    by (simp add: load_session_def)
  moreover have "snd (create_session S t s now) t = Some \<lparr>snap = s, expiry = now + maxAge\<rparr>"
    by (simp add: create_session_def)
  then have "load_session (snd (create_session S t s now)) (Some t) (now + d)
       = (if d < maxAge then Some s else None)"
    and "load_session (snd (create_session S t s now)) (Some t) (now + maxAge + d) = None"
    by (simp_all add: load_session_def)
  moreover have "maxAge = 60 * 60 * 1000"
    by (simp add: maxAge_def)
  moreover have "destroy_session (destroy_session S t) t = destroy_session S t"
    by (simp add: destroy_session_def)
  moreover have "get_logout st = (Redirect ''/'', st\<lparr>session := None\<rparr>)"
    by (simp add: get_logout_def)
  ultimately show ?thesis using gone by simp
qed

end
